theory Spec2Isabelle
  imports Main "HOL-Library.Sublist"
begin

section \<open>Strings and the built-in string operations used by main.js\<close>

text \<open>
  A JavaScript string is modelled as a \<^typ>\<open>string\<close>, one \<^typ>\<open>char\<close> per code unit.
  The case conversions act on the ASCII letters and leave every other code unit as it is, which
  is what \<^verbatim>\<open>String.prototype.toUpperCase\<close> and \<^verbatim>\<open>toLowerCase\<close> do on strings of ASCII code
  units; the development is about such strings.
\<close>

definition toUpperCase_char :: "char \<Rightarrow> char" where
  "toUpperCase_char c =
     (if (97::nat) \<le> of_char c \<and> of_char c \<le> (122::nat)
      then char_of (of_char c - (32::nat)) else c)"

definition toLowerCase_char :: "char \<Rightarrow> char" where
  "toLowerCase_char c =
     (if (65::nat) \<le> of_char c \<and> of_char c \<le> (90::nat)
      then char_of (of_char c + (32::nat)) else c)"

definition toUpperCase :: "string \<Rightarrow> string" where
  "toUpperCase s = map toUpperCase_char s"

definition toLowerCase :: "string \<Rightarrow> string" where
  "toLowerCase s = map toLowerCase_char s"

text \<open>
  \<^verbatim>\<open>s.split(sep)\<close>: the string is scanned from the left; \<open>acc\<close> holds, reversed, the code
  units read since the last separator. Where the separator occurs the piece read so far is
  emitted and the scan goes on behind the separator; the last piece is emitted at the end of the
  string, so the result is never empty for a separator that is not empty. For the empty
  separator JavaScript returns the code units one by one.
\<close>

fun split_aux :: "string \<Rightarrow> string \<Rightarrow> string \<Rightarrow> string list" where
  "split_aux sep acc [] = [rev acc]"
| "split_aux sep acc (c # cs) =
     (if take (length sep) (c # cs) = sep
      then rev acc # split_aux sep [] (drop (length sep - 1) cs)
      else split_aux sep (c # acc) cs)"

definition split :: "string \<Rightarrow> string \<Rightarrow> string list" where
  "split s sep = (if sep = [] then map (\<lambda>c. [c]) s else split_aux sep [] s)"

text \<open>
  \<^verbatim>\<open>[...new Set(xs)]\<close>: a Set keeps its elements in the order of their first insertion.
\<close>

fun newSet_aux :: "'a list \<Rightarrow> 'a list \<Rightarrow> 'a list" where
  "newSet_aux seen [] = seen"
| "newSet_aux seen (x # xs) =
     (if x \<in> set seen then newSet_aux seen xs else newSet_aux (seen @ [x]) xs)"

definition newSet :: "'a list \<Rightarrow> 'a list" where
  "newSet xs = newSet_aux [] xs"

section \<open>The program\<close>

definition PRONOUNS :: "(string \<times> string list) list" where
  "PRONOUNS =
    [(''1st person singular'', [''I'', ''me'', ''my'', ''mine'', ''myself'']),
     (''1st person plural'', [''we'', ''us'', ''our'', ''ours'', ''ourselves'']),
     (''2nd person singular'', [''you'', ''your'', ''yourself''])]"

definition CASE_SENSITIVE :: "string list" where
  "CASE_SENSITIVE = [''I'']"

definition isTermCaseSensitive :: "string \<Rightarrow> bool" where
  "isTermCaseSensitive term = (toUpperCase term \<in> set CASE_SENSITIVE)"

definition findCaseSensitiveTermInstances :: "string list \<Rightarrow> string list \<Rightarrow> string list" where
  "findCaseSensitiveTermInstances text terms = filter (\<lambda>term. term \<in> set text) terms"

definition findCaseInsensitiveTermInstances :: "string list \<Rightarrow> string list \<Rightarrow> string list" where
  "findCaseInsensitiveTermInstances text terms =
     (let text' = map toLowerCase text;
          terms' = map toLowerCase terms
      in filter (\<lambda>term. term \<in> set text') terms')"

text \<open>The pieces of \<^verbatim>\<open>findTermInstances\<close>, in the order of its statements.\<close>

definition tokens :: "string \<Rightarrow> string list" where
  "tokens text = split text '' ''"

definition normalizedTerms :: "string \<Rightarrow> string list" where
  "normalizedTerms terms =
     map (\<lambda>term. if isTermCaseSensitive term then term else toLowerCase term)
       (split terms '', '')"

definition additionalPronouns :: "string list \<Rightarrow> string list" where
  "additionalPronouns terms =
     fold (\<lambda>pronounClass pronounsToAdd.
             let termsInClass = list_ex (\<lambda>term. term \<in> set pronounClass) terms
             in if termsInClass then pronounsToAdd @ pronounClass else pronounsToAdd)
       (map snd PRONOUNS) []"

definition mergedTerms :: "string \<Rightarrow> string list" where
  "mergedTerms terms =
     (let terms' = normalizedTerms terms
      in newSet (terms' @ additionalPronouns terms'))"

definition caseSensitiveTerms :: "string \<Rightarrow> string list" where
  "caseSensitiveTerms terms = filter (\<lambda>term. isTermCaseSensitive term) (mergedTerms terms)"

definition caseInsensitiveTerms :: "string \<Rightarrow> string list" where
  "caseInsensitiveTerms terms = filter (\<lambda>term. \<not> isTermCaseSensitive term) (mergedTerms terms)"

definition findTermInstances :: "string \<Rightarrow> string \<Rightarrow> string list" where
  "findTermInstances text terms =
     (let text' = tokens text;
          results = [];
          results' = (if length (caseSensitiveTerms terms) > 0
                      then results @ findCaseSensitiveTermInstances text' (caseSensitiveTerms terms)
                      else results)
      in results' @ findCaseInsensitiveTermInstances text' (caseInsensitiveTerms terms))"

section \<open>Auxiliary facts\<close>

subsection \<open>Case conversion\<close>

lemma toLowerCase_char_idem: "toLowerCase_char (toLowerCase_char c) = toLowerCase_char c"
  by (simp add: toLowerCase_char_def)

lemma toLowerCase_idem: "toLowerCase (toLowerCase s) = toLowerCase s"
  by (simp add: toLowerCase_def toLowerCase_char_idem)

lemma toLowerCase_Nil_iff: "toLowerCase s = [] \<longleftrightarrow> s = []"
  by (simp add: toLowerCase_def)

lemma toUpperCase_char_I_iff: "toUpperCase_char c = CHR ''I'' \<longleftrightarrow> c = CHR ''I'' \<or> c = CHR ''i''"
proof -
  have I: "c = CHR ''I'' \<longleftrightarrow> of_char c = (73::nat)"
    using of_char_eq_iff [of c "CHR ''I''", where ?'a = nat] by simp
  have i: "c = CHR ''i'' \<longleftrightarrow> of_char c = (105::nat)"
    using of_char_eq_iff [of c "CHR ''i''", where ?'a = nat] by simp
  have u: "toUpperCase_char c = CHR ''I'' \<longleftrightarrow> of_char (toUpperCase_char c) = (73::nat)"
    using of_char_eq_iff [of "toUpperCase_char c" "CHR ''I''", where ?'a = nat] by simp
  have lt: "of_char c < (256::nat)" by simp
  show ?thesis
    unfolding u I i using lt by (auto simp add: toUpperCase_char_def)
qed

lemma toUpperCase_I_iff: "toUpperCase t = ''I'' \<longleftrightarrow> t = ''I'' \<or> t = ''i''"
  by (cases t) (auto simp add: toUpperCase_def toUpperCase_char_I_iff)

lemma isTermCaseSensitive_iff: "isTermCaseSensitive t \<longleftrightarrow> t = ''I'' \<or> t = ''i''"
  by (simp add: isTermCaseSensitive_def CASE_SENSITIVE_def toUpperCase_I_iff)

subsection \<open>Merging and expansion\<close>

lemma set_newSet_aux: "set (newSet_aux seen xs) = set seen \<union> set xs"
  by (induction xs arbitrary: seen) auto

lemma distinct_newSet_aux: "distinct seen \<Longrightarrow> distinct (newSet_aux seen xs)"
  by (induction xs arbitrary: seen) auto

lemma set_newSet: "set (newSet xs) = set xs"
  by (simp add: newSet_def set_newSet_aux)

lemma distinct_newSet: "distinct (newSet xs)"
  by (simp add: newSet_def distinct_newSet_aux)

lemma set_fold_classes:
  "set (fold (\<lambda>c acc. if P c then acc @ c else acc) cs acc0) =
     set acc0 \<union> \<Union> (set ` {c \<in> set cs. P c})"
  by (induction cs arbitrary: acc0) auto

lemma set_additionalPronouns:
  "set (additionalPronouns ts) =
     \<Union> (set ` {c \<in> set (map snd PRONOUNS). list_ex (\<lambda>t. t \<in> set c) ts})"
  unfolding additionalPronouns_def Let_def by (simp only: set_fold_classes) simp

lemma set_mergedTerms:
  "set (mergedTerms terms) =
     set (normalizedTerms terms) \<union> set (additionalPronouns (normalizedTerms terms))"
  by (simp add: mergedTerms_def Let_def set_newSet)

lemma findTermInstances_eq:
  "findTermInstances text terms =
     findCaseSensitiveTermInstances (tokens text) (caseSensitiveTerms terms) @
     findCaseInsensitiveTermInstances (tokens text) (caseInsensitiveTerms terms)"
  by (simp add: findTermInstances_def Let_def findCaseSensitiveTermInstances_def)

subsection \<open>Splitting on a space\<close>

lemma split_aux_space_concat:
  "concat (map ((#) CHR '' '') (split_aux '' '' acc s)) = CHR '' '' # rev acc @ s"
  by (induction s arbitrary: acc) auto

lemma split_aux_space_no_space:
  "CHR '' '' \<notin> set acc \<Longrightarrow> tok \<in> set (split_aux '' '' acc s) \<Longrightarrow> CHR '' '' \<notin> set tok"
proof (induction s arbitrary: acc)
  case Nil
  then show ?case by auto
next
  case (Cons c cs)
  show ?case
  proof (cases "c = CHR '' ''")
    case True
    with Cons.prems have "tok = rev acc \<or> tok \<in> set (split_aux '' '' [] cs)"
      by simp
    then show ?thesis
      using Cons.IH [of "[]"] Cons.prems(1) by auto
  next
    case False
    with Cons.prems have "tok \<in> set (split_aux '' '' (c # acc) cs)"
      by simp
    then show ?thesis
      using Cons.IH [of "c # acc"] Cons.prems(1) False by auto
  qed
qed

lemma split_aux_space_double:
  "[] \<in> set (split_aux '' '' acc (a @ ''  '' @ b))"
  by (induction a arbitrary: acc) auto

lemma tokens_concat: "concat (map ((#) CHR '' '') (tokens text)) = CHR '' '' # text"
  by (simp add: tokens_def split_def split_aux_space_concat)

lemma tokens_no_space: "tok \<in> set (tokens text) \<Longrightarrow> CHR '' '' \<notin> set tok"
  using split_aux_space_no_space [of "[]" tok "text"] by (simp add: tokens_def split_def)

lemma tokens_double_space: "[] \<in> set (tokens (a @ ''  '' @ b))"
  using split_aux_space_double [of "[]" a b] by (simp add: tokens_def split_def)

lemma tokens_Nil: "tokens [] = [[]]"
  by (simp add: tokens_def split_def)

subsection \<open>Membership in the results\<close>

lemma pronoun_member_cases:
  "cls \<in> set (map snd PRONOUNS) \<Longrightarrow> m \<in> set cls \<Longrightarrow>
     m = ''I'' \<or> (\<not> isTermCaseSensitive m \<and> toLowerCase m = m)"
  by (auto simp add: PRONOUNS_def isTermCaseSensitive_iff toLowerCase_def toLowerCase_char_def)

lemma mem_findCaseSensitive:
  "t \<in> set (findCaseSensitiveTermInstances toks ts) \<longleftrightarrow> t \<in> set ts \<and> t \<in> set toks"
  by (auto simp add: findCaseSensitiveTermInstances_def)

lemma mem_findCaseInsensitive:
  "t \<in> set (findCaseInsensitiveTermInstances toks ts) \<longleftrightarrow>
     t \<in> toLowerCase ` set ts \<and> t \<in> toLowerCase ` set toks"
  by (auto simp add: findCaseInsensitiveTermInstances_def Let_def)

lemma mem_findTermInstances:
  "x \<in> set (findTermInstances text terms) \<longleftrightarrow>
     (x \<in> set (mergedTerms terms) \<and> isTermCaseSensitive x \<and> x \<in> set (tokens text)) \<or>
     (\<exists>t. t \<in> set (mergedTerms terms) \<and> \<not> isTermCaseSensitive t \<and> x = toLowerCase t \<and>
          x \<in> toLowerCase ` set (tokens text))"
  unfolding findTermInstances_eq
  by (auto simp add: mem_findCaseSensitive mem_findCaseInsensitive
        caseSensitiveTerms_def caseInsensitiveTerms_def)

section \<open>The claims\<close>

text \<open>
  Claim C3. \<^const>\<open>isTermCaseSensitive\<close> holds of a term exactly when its uppercased form is in
  the set \<open>{I}\<close>; two terms with the same uppercased form are classified alike (no text is
  involved); the empty string is not case sensitive.
\<close>

theorem C3_isTermCaseSensitive:
  "isTermCaseSensitive t = (toUpperCase t \<in> {''I''}) \<and>
   (toUpperCase t = toUpperCase u \<longrightarrow> isTermCaseSensitive t = isTermCaseSensitive u) \<and>
   \<not> isTermCaseSensitive ''''"
  by (simp add: isTermCaseSensitive_def CASE_SENSITIVE_def toUpperCase_def)

text \<open>The terms \<open>i\<close> and \<open>I\<close> have the same uppercased form and are both case sensitive.\<close>

theorem C3_isTermCaseSensitive_witness:
  "isTermCaseSensitive ''i'' = (toUpperCase ''i'' \<in> {''I''}) \<and>
   toUpperCase ''i'' = toUpperCase ''I'' \<and>
   isTermCaseSensitive ''i'' = isTermCaseSensitive ''I'' \<and>
   isTermCaseSensitive ''I'' \<and>
   \<not> isTermCaseSensitive ''''"
proof -
  have up: "toUpperCase ''i'' = ''I''" "toUpperCase ''I'' = ''I''"
    by code_simp+
  show ?thesis
    using C3_isTermCaseSensitive [of "''i''" "''I''"] up by auto
qed

text \<open>
  Claim C6. Both matchers keep, in order, the terms that pass a membership test in the tokens.
  The case-sensitive one tests the terms as given against the tokens as given, so \<open>i\<close> and
  \<open>I\<close> do not match each other. The case-insensitive one lowercases the tokens and the terms
  first, so \<open>My\<close> and \<open>my\<close> match; what it returns is a subsequence of the lowercased
  terms. With no terms or no tokens both return the empty list.
\<close>

theorem C6_matchers:
  "findCaseSensitiveTermInstances toks terms = filter (\<lambda>t. t \<in> set toks) terms \<and>
   subseq (findCaseSensitiveTermInstances toks terms) terms \<and>
   findCaseInsensitiveTermInstances toks terms =
     filter (\<lambda>t. t \<in> set (map toLowerCase toks)) (map toLowerCase terms) \<and>
   subseq (findCaseInsensitiveTermInstances toks terms) (map toLowerCase terms) \<and>
   findCaseSensitiveTermInstances [''I''] [''i''] = [] \<and>
   findCaseSensitiveTermInstances [''i''] [''I''] = [] \<and>
   findCaseInsensitiveTermInstances [''my''] [''My''] = [''my''] \<and>
   findCaseInsensitiveTermInstances [''My''] [''my''] = [''my''] \<and>
   findCaseSensitiveTermInstances [] terms = [] \<and>
   findCaseSensitiveTermInstances toks [] = [] \<and>
   findCaseInsensitiveTermInstances [] terms = [] \<and>
   findCaseInsensitiveTermInstances toks [] = []"
proof -
  have ex: "toLowerCase ''My'' = ''my''" "toLowerCase ''my'' = ''my''"
    by code_simp+
  show ?thesis
    by (simp add: findCaseSensitiveTermInstances_def findCaseInsensitiveTermInstances_def
          Let_def ex)
qed

text \<open>
  Claim C7. The tokens of a text are its pieces between single spaces: putting a space in front
  of every token and concatenating gives back the text behind a space, so nothing is trimmed or
  collapsed; no token contains a space; a text with two consecutive spaces has an empty token;
  punctuation stays in the token, so \<open>myself,\<close> is a token of \<open>by myself, only\<close> and the
  term \<open>myself\<close> is not found there.
\<close>

theorem C7_tokens:
  "concat (map ((#) CHR '' '') (tokens text)) = CHR '' '' # text \<and>
   (\<forall>tok \<in> set (tokens text). CHR '' '' \<notin> set tok) \<and>
   [] \<in> set (tokens (a @ ''  '' @ b)) \<and>
   tokens ''by myself, only'' = [''by'', ''myself,'', ''only''] \<and>
   ''myself,'' \<noteq> ''myself'' \<and>
   findTermInstances ''by myself, only'' ''myself'' = []"
proof -
  have ex: "tokens ''by myself, only'' = [''by'', ''myself,'', ''only'']"
    "findTermInstances ''by myself, only'' ''myself'' = []"
    by code_simp+
  have nosp: "\<forall>tok \<in> set (tokens text). CHR '' '' \<notin> set tok"
    using tokens_no_space by blast
  have neq: "''myself,'' \<noteq> ''myself''"
    by simp
  from tokens_concat nosp tokens_double_space ex neq show ?thesis
    by blast
qed

text \<open>The text \<open>a\<close>, two spaces, \<open>b\<close> has the empty token between its two words.\<close>

theorem C7_tokens_witness:
  "tokens ''a  b'' = [''a'', [], ''b''] \<and>
   concat (map ((#) CHR '' '') (tokens ''a  b'')) = '' a  b'' \<and>
   [] \<in> set (tokens (''a'' @ ''  '' @ ''b''))"
proof -
  have tk: "tokens ''a  b'' = [''a'', [], ''b'']"
    by code_simp
  show ?thesis
    using C7_tokens [of "''a  b''" "''a''" "''b''"] by (simp add: tk)
qed

text \<open>
  Claim C5. The merged term list, which holds the normalized terms together with the additional
  pronouns, has no duplicates at the point where it is partitioned.
\<close>

theorem C5_mergedTerms_distinct:
  "distinct (mergedTerms terms) \<and>
   set (mergedTerms terms) =
     set (normalizedTerms terms) \<union> set (additionalPronouns (normalizedTerms terms))"
  by (simp add: mergedTerms_def Let_def distinct_newSet set_newSet)

text \<open>
  Claim C2. Whenever some normalized term is a member of a pronoun class, every member of that
  class is among the additional pronouns and hence in the merged term list that is partitioned;
  and every member of the class that is a token of the text is an element of the result of
  \<^const>\<open>findTermInstances\<close>.
\<close>

theorem C2_class_complete_expansion:
  assumes cls: "cls \<in> set (map snd PRONOUNS)"
    and trig: "\<exists>t \<in> set (normalizedTerms terms). t \<in> set cls"
  shows "set cls \<subseteq> set (additionalPronouns (normalizedTerms terms)) \<and>
         set cls \<subseteq> set (mergedTerms terms) \<and>
         (\<forall>m \<in> set cls. m \<in> set (tokens text) \<longrightarrow> m \<in> set (findTermInstances text terms))"
proof -
  from trig have "list_ex (\<lambda>t. t \<in> set cls) (normalizedTerms terms)"
    by (simp add: list_ex_iff)
  with cls have add: "set cls \<subseteq> set (additionalPronouns (normalizedTerms terms))"
    unfolding set_additionalPronouns by blast
  then have merged: "set cls \<subseteq> set (mergedTerms terms)"
    unfolding set_mergedTerms by blast
  have "m \<in> set (findTermInstances text terms)"
    if m: "m \<in> set cls" and tok: "m \<in> set (tokens text)" for m
  proof -
    from m merged have mt: "m \<in> set (mergedTerms terms)" by blast
    from pronoun_member_cases [OF cls m] show ?thesis
    proof
      assume "m = ''I''"
      then have "isTermCaseSensitive m" by (simp add: isTermCaseSensitive_iff)
      with mt tok show ?thesis unfolding mem_findTermInstances by blast
    next
      assume low: "\<not> isTermCaseSensitive m \<and> toLowerCase m = m"
      with tok have "m \<in> toLowerCase ` set (tokens text)" by force
      with mt low show ?thesis unfolding mem_findTermInstances by metis
    qed
  qed
  with add merged show ?thesis by blast
qed

text \<open>The term \<open>us\<close> and the first person plural class, on the text of scenario 2.\<close>

theorem C2_class_complete_expansion_witness:
  "[''we'', ''us'', ''our'', ''ours'', ''ourselves''] \<in> set (map snd PRONOUNS) \<and>
   ''us'' \<in> set (normalizedTerms ''Customer, us'') \<and>
   set [''we'', ''us'', ''our'', ''ours'', ''ourselves''] \<subseteq> set (mergedTerms ''Customer, us'') \<and>
   ''our'' \<in> set (tokens ''The Customer is not our client'') \<and>
   ''our'' \<in> set (findTermInstances ''The Customer is not our client'' ''Customer, us'')"
proof -
  have cls: "[''we'', ''us'', ''our'', ''ours'', ''ourselves''] \<in> set (map snd PRONOUNS)"
    by (simp add: PRONOUNS_def)
  have nt: "normalizedTerms ''Customer, us'' = [''customer'', ''us'']"
    by code_simp
  have tk: "tokens ''The Customer is not our client'' =
      [''The'', ''Customer'', ''is'', ''not'', ''our'', ''client'']"
    by code_simp
  have trig: "\<exists>t \<in> set (normalizedTerms ''Customer, us'').
      t \<in> set [''we'', ''us'', ''our'', ''ours'', ''ourselves'']"
    by (simp add: nt)
  show ?thesis
    using C2_class_complete_expansion [OF cls trig, of "''The Customer is not our client''"] cls
    by (simp add: nt tk)
qed

text \<open>
  Claim C4. The result of \<^const>\<open>findTermInstances\<close> is the case-sensitive matches followed by
  the case-insensitive matches: its first part, as long as the case-sensitive matches, is these
  matches, and what follows is the case-insensitive matches.
\<close>

theorem C4_case_sensitive_first:
  "findTermInstances text terms =
     findCaseSensitiveTermInstances (tokens text) (caseSensitiveTerms terms) @
     findCaseInsensitiveTermInstances (tokens text) (caseInsensitiveTerms terms) \<and>
   take (length (findCaseSensitiveTermInstances (tokens text) (caseSensitiveTerms terms)))
     (findTermInstances text terms) =
     findCaseSensitiveTermInstances (tokens text) (caseSensitiveTerms terms) \<and>
   drop (length (findCaseSensitiveTermInstances (tokens text) (caseSensitiveTerms terms)))
     (findTermInstances text terms) =
     findCaseInsensitiveTermInstances (tokens text) (caseInsensitiveTerms terms)"
  by (simp add: findTermInstances_eq)

text \<open>
  Claim C9. Every element of the result of \<^const>\<open>findTermInstances\<close> whose uppercased form is
  not \<open>I\<close> is its own lowercased form; the term \<open>Customer\<close> on a text with the token
  \<open>Customer\<close> comes back as \<open>customer\<close>.
\<close>

theorem C9_results_lowercased:
  "(\<forall>x \<in> set (findTermInstances text terms). toUpperCase x \<noteq> ''I'' \<longrightarrow> toLowerCase x = x) \<and>
   findTermInstances ''The Customer is always right'' ''Customer'' = [''customer'']"
proof -
  have ex: "findTermInstances ''The Customer is always right'' ''Customer'' = [''customer'']"
    by code_simp
  have "toLowerCase x = x"
    if x: "x \<in> set (findTermInstances text terms)" and up: "toUpperCase x \<noteq> ''I''" for x
  proof -
    from up have "\<not> isTermCaseSensitive x"
      by (simp add: isTermCaseSensitive_def CASE_SENSITIVE_def)
    with x obtain t where "x = toLowerCase t"
      unfolding mem_findTermInstances by blast
    then show ?thesis by (simp add: toLowerCase_idem)
  qed
  with ex show ?thesis by blast
qed

text \<open>The element \<open>customer\<close> of scenario 1 without its pronoun.\<close>

theorem C9_results_lowercased_witness:
  "''customer'' \<in> set (findTermInstances ''The Customer is always right'' ''Customer'') \<and>
   toUpperCase ''customer'' \<noteq> ''I'' \<and> toLowerCase ''customer'' = ''customer''"
proof -
  have ex: "findTermInstances ''The Customer is always right'' ''Customer'' = [''customer'']"
    by code_simp
  have up: "toUpperCase ''customer'' = ''CUSTOMER''"
    by code_simp
  show ?thesis
    using C9_results_lowercased [of "''The Customer is always right''" "''Customer''"]
    by (simp add: ex up)
qed

text \<open>
  Claim C10. With the empty terms string, \<^const>\<open>findTermInstances\<close> returns the list holding
  the empty string when the text has an empty token, and the empty list when it has none. The
  empty text and every text with two consecutive spaces have an empty token.
\<close>

theorem C10_empty_terms:
  "([] \<in> set (tokens text) \<longrightarrow> findTermInstances text [] = [[]]) \<and>
   ([] \<notin> set (tokens text) \<longrightarrow> findTermInstances text [] = []) \<and>
   [] \<in> set (tokens []) \<and>
   [] \<in> set (tokens (a @ ''  '' @ b))"
proof -
  have cs: "caseSensitiveTerms [] = []" and ci: "caseInsensitiveTerms [] = [[]]"
    by code_simp+
  have low: "toLowerCase [] = []"
    by (simp add: toLowerCase_def)
  have mem: "[] \<in> toLowerCase ` set (tokens text) \<longleftrightarrow> [] \<in> set (tokens text)"
    by (auto simp add: image_iff toLowerCase_def)
  have res: "findTermInstances text [] = (if [] \<in> set (tokens text) then [[]] else [])"
    unfolding findTermInstances_eq cs ci
    by (simp add: findCaseSensitiveTermInstances_def findCaseInsensitiveTermInstances_def
          Let_def low mem)
  have empty_text: "[] \<in> set (tokens [])"
    by (simp add: tokens_Nil)
  from res empty_text tokens_double_space [of a b] show ?thesis
    by simp
qed

text \<open>One text with an empty token and one without.\<close>

theorem C10_empty_terms_witness:
  "[] \<in> set (tokens ''a  b'') \<and> findTermInstances ''a  b'' [] = [[]] \<and>
   [] \<notin> set (tokens ''a b'') \<and> findTermInstances ''a b'' [] = []"
proof -
  have tk: "tokens ''a  b'' = [''a'', [], ''b'']" "tokens ''a b'' = [''a'', ''b'']"
    by code_simp+
  show ?thesis
    using C10_empty_terms [of "''a  b''"] C10_empty_terms [of "''a b''"] by (simp add: tk)
qed

text \<open>
  Scenario 2 as the specification words it fails on the capitalised term: \<open>Customer\<close> is
  lowercased before it is searched for, and the lowercased term is what is returned.
\<close>

theorem C1_counterexample:
  "\<not> (''Customer'' \<in> set (findTermInstances ''The Customer is not our client'' ''Customer, us'') \<and>
      ''our'' \<in> set (findTermInstances ''The Customer is not our client'' ''Customer, us''))"
  by code_simp

text \<open>
  Claim C1, as amended. In \<^verbatim>\<open>findTermInstances("The Customer is not our client", "Customer, us")\<close>
  the term \<open>us\<close> makes the expander add the whole first person plural class
  \<open>we, us, our, ours, ourselves\<close>, and the call returns exactly \<open>customer\<close> (lowercased)
  followed by \<open>our\<close>.
\<close>

theorem C1_us_expands_first_person_plural:
  "additionalPronouns (normalizedTerms ''Customer, us'') =
     [''we'', ''us'', ''our'', ''ours'', ''ourselves''] \<and>
   findTermInstances ''The Customer is not our client'' ''Customer, us'' = [''customer'', ''our'']"
  by code_simp

text \<open>
  Scenario 3 as the specification words it fails on the capitalised term: the result holds
  \<open>client\<close>, not \<open>Client\<close>.
\<close>

theorem C8_counterexample:
  "\<not> (''Client'' \<in> set (findTermInstances
          ''My rights cannot be abridged by myself, only the Client'' ''I, Client'') \<and>
      ''my'' \<in> set (findTermInstances
          ''My rights cannot be abridged by myself, only the Client'' ''I, Client'') \<and>
      ''myself'' \<notin> set (findTermInstances
          ''My rights cannot be abridged by myself, only the Client'' ''I, Client''))"
  by code_simp

text \<open>
  Claim C8, as amended. In scenario 3 the term \<open>I\<close> makes the expander add the first person
  singular class; \<open>I\<close> is the only case-sensitive term of the merged list; the text has the
  token \<open>myself,\<close> with its comma; and the call returns exactly \<open>client\<close> (lowercased)
  followed by \<open>my\<close>, so \<open>myself\<close> is not in the result.
\<close>

theorem C8_scenario_three:
  "additionalPronouns (normalizedTerms ''I, Client'') = [''I'', ''me'', ''my'', ''mine'', ''myself''] \<and>
   caseSensitiveTerms ''I, Client'' = [''I''] \<and>
   caseInsensitiveTerms ''I, Client'' = [''client'', ''me'', ''my'', ''mine'', ''myself''] \<and>
   ''myself,'' \<in> set (tokens ''My rights cannot be abridged by myself, only the Client'') \<and>
   findTermInstances ''My rights cannot be abridged by myself, only the Client'' ''I, Client'' =
     [''client'', ''my'']"
  by code_simp

end
